theory Spec2Isabelle
  imports Complex_Main "HOL-Library.Multiset"
begin

section \<open>Data model (types.ts)\<close>

text \<open>
  The enums and the \<open>Transaction\<close> interface of the client. A JavaScript string is a
  list of code units; the model keeps the code units below 256 (Latin-1, which covers the
  Portuguese titles of the application), one \<open>char\<close> each. \<open>amount\<close> is a finite number,
  kept as its exact (rational) value. Sums are exact, except in \<open>getProjectionData64\<close>
  below, where every addition is rounded to a double as the engine does.
  Fields \<open>id\<close> and \<open>note\<close> carry a suffix because the plain names are taken.
\<close>

datatype ModuleType = BUDGET | TRAVEL | INVESTMENT | PROJECTION

datatype TransactionType = INCOME | EXPENSE | ASSET

record Transaction =
  id_t :: string
  moduleId :: ModuleType
  title :: string
  amount :: rat
  date :: string
  type :: TransactionType
  category :: "string option"
  note_t :: "string option"

datatype RiskLevel = Low | Medium | High

record AIAnalysisResult =
  summary :: string
  tips :: "string list"
  riskLevel :: RiskLevel

section \<open>JavaScript numbers and strings\<close>

text \<open>
  A number is a finite value, one of the two infinities, or NaN. Finite arithmetic is exact;
  the sign of zero is not modelled (a zero divisor is taken as \<open>+0\<close>, which is what a sum
  started at \<open>0\<close> and an amount typed as \<open>0\<close> are).
\<close>

datatype jsnum = Fin rat | PosInf | NegInf | NaN

text \<open>\<open>a === b\<close> on numbers: NaN equals nothing, not even itself.\<close>

definition strict_eq :: "jsnum \<Rightarrow> jsnum \<Rightarrow> bool" where
  "strict_eq a b = (a \<noteq> NaN \<and> a = b)"

text \<open>\<open>a / b\<close>.\<close>

fun js_div :: "jsnum \<Rightarrow> jsnum \<Rightarrow> jsnum" where
  "js_div (Fin a) (Fin b) =
     (if b \<noteq> 0 then Fin (a / b)
      else if 0 < a then PosInf else if a < 0 then NegInf else NaN)"
| "js_div (Fin a) PosInf = Fin 0"
| "js_div (Fin a) NegInf = Fin 0"
| "js_div PosInf (Fin b) = (if 0 \<le> b then PosInf else NegInf)"
| "js_div NegInf (Fin b) = (if 0 \<le> b then NegInf else PosInf)"
| "js_div _ _ = NaN"

text \<open>\<open>a * b\<close>.\<close>

fun js_mul :: "jsnum \<Rightarrow> jsnum \<Rightarrow> jsnum" where
  "js_mul (Fin a) (Fin b) = Fin (a * b)"
| "js_mul NaN _ = NaN"
| "js_mul _ NaN = NaN"
| "js_mul PosInf (Fin b) = (if 0 < b then PosInf else if b < 0 then NegInf else NaN)"
| "js_mul NegInf (Fin b) = (if 0 < b then NegInf else if b < 0 then PosInf else NaN)"
| "js_mul (Fin a) PosInf = (if 0 < a then PosInf else if a < 0 then NegInf else NaN)"
| "js_mul (Fin a) NegInf = (if 0 < a then NegInf else if a < 0 then PosInf else NaN)"
| "js_mul PosInf PosInf = PosInf"
| "js_mul NegInf NegInf = PosInf"
| "js_mul PosInf NegInf = NegInf"
| "js_mul NegInf PosInf = NegInf"

text \<open>\<open>Math.min(a, b)\<close>: NaN if either argument is NaN.\<close>

fun Math_min :: "jsnum \<Rightarrow> jsnum \<Rightarrow> jsnum" where
  "Math_min NaN _ = NaN"
| "Math_min _ NaN = NaN"
| "Math_min NegInf _ = NegInf"
| "Math_min _ NegInf = NegInf"
| "Math_min PosInf b = b"
| "Math_min a PosInf = a"
| "Math_min (Fin a) (Fin b) = Fin (min a b)"

text \<open>\<open>Math.round(a)\<close>: the nearest integer, halves upwards; infinities and NaN stay.\<close>

fun Math_round :: "jsnum \<Rightarrow> jsnum" where
  "Math_round (Fin a) = Fin (of_int \<lfloor>a + 1 / 2\<rfloor>)"
| "Math_round x = x"

text \<open>
  \<open>String.prototype.toLowerCase\<close> on Latin-1 code units: \<open>A\<close>..\<open>Z\<close> and the accented
  capitals \<open>U+00C0\<close>..\<open>U+00DE\<close> (the multiplication sign \<open>U+00D7\<close> apart) move up by 32.
\<close>

definition toLowerCase_unit :: "char \<Rightarrow> char" where
  "toLowerCase_unit c =
     (let n = (of_char c :: nat)
      in if (65 \<le> n \<and> n \<le> 90) \<or> (192 \<le> n \<and> n \<le> 222 \<and> n \<noteq> 215)
         then char_of (n + 32) else c)"

definition toLowerCase :: "string \<Rightarrow> string" where
  "toLowerCase str = map toLowerCase_unit str"

text \<open>
  The white space and line terminators that \<open>trim\<close> strips, below 256: TAB, LF, VT, FF,
  CR, SP and the no-break space.
\<close>

definition isWhiteSpace :: "char \<Rightarrow> bool" where
  "isWhiteSpace c = ((of_char c :: nat) \<in> {9, 10, 11, 12, 13, 32, 160})"

definition trim :: "string \<Rightarrow> string" where
  "trim str = rev (dropWhile isWhiteSpace (rev (dropWhile isWhiteSpace str)))"

text \<open>\<open>str.split(sep)\<close> for a one-character separator: never the empty array.\<close>

fun split_str :: "char \<Rightarrow> string \<Rightarrow> string list" where
  "split_str sep [] = [[]]"
| "split_str sep (c # cs) =
     (if c = sep then [] # split_str sep cs
      else (case split_str sep cs of
              [] \<Rightarrow> [[c]]
            | p # ps \<Rightarrow> (c # p) # ps))"

definition isDigit :: "char \<Rightarrow> bool" where
  "isDigit c = (48 \<le> (of_char c :: nat) \<and> (of_char c :: nat) \<le> 57)"

text \<open>
  \<open>Number(s)\<close> on the pieces of a date string: surrounding white space is dropped, the
  empty string is 0, a string of decimal digits is its value, and anything else is NaN.
  (JavaScript also reads signs, fractions, exponents and radix prefixes; the pieces of an
  ISO date \<open>YYYY-MM-DD\<close>, which is what the store and the date input deliver, have none.)
\<close>

definition Number :: "string \<Rightarrow> jsnum" where
  "Number s =
     (let s' = trim s
      in if s' = [] then Fin 0
         else if list_all isDigit s'
         then Fin (of_nat (foldl (\<lambda>acc c. 10 * acc + ((of_char c :: nat) - 48)) 0 s'))
         else NaN)"

section \<open>App.tsx: module totals and the props handed to the detail view\<close>


text \<open>
  The props of \<open>ModuleDetail\<close> that the computations read (\<open>module.id\<close>, \<open>transactions\<close>,
  \<open>allTransactions\<close>), and the component's own state \<open>currentDate\<close>, of which the year and
  the zero-based month are read.
\<close>

record ModuleDetailProps =
  module_id :: ModuleType
  transactions :: "Transaction list"
  allTransactions :: "Transaction list"

record JSDate =
  getFullYear :: int
  getMonth :: int

text \<open>What \<open>App\<close> passes for the active module: its own records and the whole snapshot.\<close>

definition App_props :: "ModuleType \<Rightarrow> Transaction list \<Rightarrow> ModuleDetailProps" where
  "App_props activeModule txs =
     \<lparr>module_id = activeModule,
      transactions = filter (\<lambda>t. moduleId t = activeModule) txs,
      allTransactions = txs\<rparr>"

section \<open>ModuleDetail.tsx: month filter and goal reconciliation\<close>

text \<open>\<open>const [year, month] = t.date.split('-').map(Number)\<close>; \<open>None\<close> is an undefined \<open>month\<close>.\<close>

definition yearMonth :: "Transaction \<Rightarrow> (jsnum \<times> jsnum) option" where
  "yearMonth t =
     (case map Number (split_str CHR ''-'' (date t)) of
        year # month # _ \<Rightarrow> Some (year, month)
      | _ \<Rightarrow> None)"

text \<open>The predicate of both month filters.\<close>

definition inCurrentMonth :: "JSDate \<Rightarrow> Transaction \<Rightarrow> bool" where
  "inCurrentMonth currentDate t =
     (case yearMonth t of
        None \<Rightarrow> False
      | Some (year, month) \<Rightarrow>
          strict_eq month (Fin (of_int (getMonth currentDate + 1))) \<and>
          strict_eq year (Fin (of_int (getFullYear currentDate))))"

definition filteredTransactions :: "ModuleDetailProps \<Rightarrow> JSDate \<Rightarrow> Transaction list" where
  "filteredTransactions props currentDate =
     filter (inCurrentMonth currentDate) (transactions props)"

definition allCurrentMonthTransactions :: "ModuleDetailProps \<Rightarrow> JSDate \<Rightarrow> Transaction list" where
  "allCurrentMonthTransactions props currentDate =
     filter (inCurrentMonth currentDate) (allTransactions props)"

definition normalize :: "string \<Rightarrow> string" where
  "normalize str = trim (toLowerCase str)"

record ProjectionMatch =
  goalAmount :: rat
  currentTotal :: rat
  isOver :: bool

text \<open>
  \<open>getProjectionData\<close>: absent in the projection module and when no projection record of
  \<open>allTransactions\<close> carries the title; otherwise the first such record gives the goal, and
  the month's records of the module with that title are summed from 0.
\<close>

definition getProjectionData :: "ModuleDetailProps \<Rightarrow> JSDate \<Rightarrow> string \<Rightarrow> ProjectionMatch option" where
  "getProjectionData props currentDate transactionTitle =
     (if module_id props = PROJECTION then None
      else (case find (\<lambda>p. moduleId p = PROJECTION \<and>
                           normalize (title p) = normalize transactionTitle)
                   (allTransactions props) of
              None \<Rightarrow> None
            | Some projection \<Rightarrow>
                (let totalSpent =
                       foldl (\<lambda>sum t. sum + amount t) 0
                         (filter (\<lambda>t. normalize (title t) = normalize transactionTitle)
                            (filteredTransactions props currentDate))
                 in Some \<lparr>goalAmount = amount projection,
                          currentTotal = totalSpent,
                          isOver = (totalSpent > amount projection)\<rparr>)))"

text \<open>
  \<open>getRealizationData\<close>: absent outside the projection module; otherwise the month's
  records of the other modules with the projection's title are summed from 0.
\<close>

definition getRealizationData :: "ModuleDetailProps \<Rightarrow> JSDate \<Rightarrow> Transaction \<Rightarrow> ProjectionMatch option" where
  "getRealizationData props currentDate projection =
     (if module_id props \<noteq> PROJECTION then None
      else (let totalRealized =
                  foldl (\<lambda>sum t. sum + amount t) 0
                    (filter (\<lambda>t. moduleId t \<noteq> PROJECTION \<and>
                                 normalize (title t) = normalize (title projection))
                       (allCurrentMonthTransactions props currentDate))
            in Some \<lparr>goalAmount = amount projection,
                     currentTotal = totalRealized,
                     isOver = (totalRealized > amount projection)\<rparr>))"

text \<open>The \<open>data\<close> of a row of the list: which of the two is asked depends on the module.\<close>

definition rowData :: "ModuleDetailProps \<Rightarrow> JSDate \<Rightarrow> Transaction \<Rightarrow> ProjectionMatch option" where
  "rowData props currentDate t =
     (if module_id props = PROJECTION then getRealizationData props currentDate t
      else getProjectionData props currentDate (title t))"

text \<open>
  What a row shows of its \<open>data\<close>: the width of the bar (\<open>percentage\<close>), the rounded
  figure before the percent sign, and the amount of the line below the bar, which reads
  "Excedeu" when \<open>isOver\<close> and "Restam" otherwise.
\<close>

definition percentage :: "ProjectionMatch option \<Rightarrow> jsnum" where
  "percentage data =
     (case data of
        Some d \<Rightarrow>
          Math_min (js_mul (js_div (Fin (currentTotal d)) (Fin (goalAmount d))) (Fin 100))
            (Fin 100)
      | None \<Rightarrow> Fin 0)"

definition percentageLabel :: "ProjectionMatch \<Rightarrow> jsnum" where
  "percentageLabel d =
     Math_round (js_mul (js_div (Fin (currentTotal d)) (Fin (goalAmount d))) (Fin 100))"

datatype RemainingLine = Excedeu rat | Restam rat

definition remainingLine :: "ProjectionMatch \<Rightarrow> RemainingLine" where
  "remainingLine d =
     (if isOver d then Excedeu (currentTotal d - goalAmount d)
      else Restam (goalAmount d - currentTotal d))"

section \<open>ModuleDetail.tsx: the forward total in double precision\<close>

text \<open>
  JavaScript numbers are IEEE 754 binary64 values, and \<open>a + b\<close> is the exact sum rounded
  to the nearest of them, ties to the even significand. A non-zero finite double is
  \<open>m * 2 ^ e\<close> with \<open>2 ^ 52 \<le> \<bar>m\<bar> < 2 ^ 53\<close> and \<open>- 1074 \<le> e\<close> (or a smaller \<open>m\<close> at
  \<open>e = - 1074\<close>, the subnormals); a rounded value of \<open>2 ^ 1024\<close> or more is an infinity.
  \<open>bitLength n\<close> is the number of binary digits of \<open>n\<close>, \<open>pow2 e\<close> is \<open>2 ^ e\<close>, and
  \<open>floorLog2 x\<close> is the integer part of the binary logarithm of a positive \<open>x\<close>.
\<close>

function bitLength :: "int \<Rightarrow> int" where
  "bitLength n = (if n \<le> 0 then 0 else 1 + bitLength (n div 2))"
  by pat_completeness auto
termination
  by (relation "measure nat") auto

declare bitLength.simps [simp del]

function pow2 :: "int \<Rightarrow> rat" where
  "pow2 e = (if e = 0 then 1 else if 0 < e then 2 * pow2 (e - 1) else pow2 (e + 1) / 2)"
  by pat_completeness auto
termination
  by (relation "measure (\<lambda>e. nat \<bar>e\<bar>)") auto

declare pow2.simps [simp del]

definition floorLog2 :: "rat \<Rightarrow> int" where
  "floorLog2 x =
     (if 1 \<le> x then bitLength \<lfloor>x\<rfloor> - 1 else - bitLength (\<lceil>1 / x\<rceil> - 1))"

definition roundHalfEven :: "rat \<Rightarrow> int" where
  "roundHalfEven q =
     (let f = \<lfloor>q\<rfloor>; d = q - of_int f
      in if d < 1 / 2 then f else if 1 / 2 < d then f + 1
         else if even f then f else f + 1)"

definition round64 :: "rat \<Rightarrow> jsnum" where
  "round64 x =
     (if x = 0 then Fin 0
      else (let e = max (floorLog2 \<bar>x\<bar> - 52) (- 1074);
                y = of_int (roundHalfEven (x / pow2 e)) * pow2 e
            in if 1024 \<le> floorLog2 \<bar>y\<bar> then (if 0 < x then PosInf else NegInf) else Fin y))"

text \<open>\<open>a + b\<close> and \<open>a > b\<close> on numbers.\<close>

fun js_add :: "jsnum \<Rightarrow> jsnum \<Rightarrow> jsnum" where
  "js_add (Fin a) (Fin b) = round64 (a + b)"
| "js_add NaN _ = NaN"
| "js_add _ NaN = NaN"
| "js_add PosInf NegInf = NaN"
| "js_add NegInf PosInf = NaN"
| "js_add PosInf _ = PosInf"
| "js_add _ PosInf = PosInf"
| "js_add NegInf _ = NegInf"
| "js_add _ NegInf = NegInf"

fun js_gt :: "jsnum \<Rightarrow> jsnum \<Rightarrow> bool" where
  "js_gt (Fin a) (Fin b) = (a > b)"
| "js_gt NaN _ = False"
| "js_gt _ NaN = False"
| "js_gt PosInf PosInf = False"
| "js_gt PosInf _ = True"
| "js_gt _ PosInf = False"
| "js_gt NegInf _ = False"
| "js_gt _ NegInf = True"

text \<open>
  \<open>getProjectionData\<close> once more, line for line, with the additions of the \<open>reduce\<close>
  rounded: the result's \<open>currentTotal\<close> is a JavaScript number.
\<close>

record ProjectionMatch64 =
  goalAmount64 :: rat
  currentTotal64 :: jsnum
  isOver64 :: bool

definition getProjectionData64 ::
  "ModuleDetailProps \<Rightarrow> JSDate \<Rightarrow> string \<Rightarrow> ProjectionMatch64 option" where
  "getProjectionData64 props currentDate transactionTitle =
     (if module_id props = PROJECTION then None
      else (case find (\<lambda>p. moduleId p = PROJECTION \<and>
                           normalize (title p) = normalize transactionTitle)
                   (allTransactions props) of
              None \<Rightarrow> None
            | Some projection \<Rightarrow>
                (let totalSpent =
                       foldl (\<lambda>sum t. js_add sum (Fin (amount t))) (Fin 0)
                         (filter (\<lambda>t. normalize (title t) = normalize transactionTitle)
                            (filteredTransactions props currentDate))
                 in Some \<lparr>goalAmount64 = amount projection,
                          currentTotal64 = totalSpent,
                          isOver64 = js_gt totalSpent (Fin (amount projection))\<rparr>)))"

section \<open>geminiService.ts: advice with a fallback\<close>

text \<open>
  The outside world of \<open>getFinancialAdvice\<close>, with every exception as a value.
  \<open>process_env\<close> is the global \<open>process.env\<close>: \<open>None\<close> where no global \<open>process\<close> exists (a
  browser page, unless the bundler substitutes it), otherwise the table of variables.
  \<open>generateContent\<close> stands for the first part of the \<open>try\<close> block (building the client
  from the key, serialising the records into the prompt, awaiting the model), which either
  throws or delivers \<open>response.text\<close> (\<open>None\<close> when undefined); \<open>JSON_parse\<close> either throws
  or delivers the parsed value, which the source casts to \<open>AIAnalysisResult\<close> without a
  check.
\<close>

datatype js_error = ReferenceError string | Thrown string

record AdviceEnv =
  process_env :: "(string \<Rightarrow> string option) option"
  generateContent :: "string \<Rightarrow> Transaction list \<Rightarrow> string \<Rightarrow> js_error + string option"
  JSON_parse :: "string \<Rightarrow> js_error + AIAnalysisResult"

text \<open>
  \<open>process.env.API_KEY || ""\<close>: reading an undeclared global throws a \<open>ReferenceError\<close>;
  an unset or empty variable gives the empty string.
\<close>

definition getApiKey :: "AdviceEnv \<Rightarrow> js_error + string" where
  "getApiKey env =
     (case process_env env of
        None \<Rightarrow> Inl (ReferenceError ''process is not defined'')
      | Some vars \<Rightarrow>
          Inr (case vars ''API_KEY'' of None \<Rightarrow> [] | Some k \<Rightarrow> if k = [] then [] else k))"

text \<open>The two literal results of the source; accented letters are Latin-1 code units.\<close>

definition noKeyAdvice :: AIAnalysisResult where
  "noKeyAdvice =
     \<lparr>summary = ''API Key n'' @ [CHR 0xE3] @ ''o configurada no servidor.'',
      tips = [''Configure a vari'' @ [CHR 0xE1] @ ''vel de ambiente API_KEY no painel do Netlify.'',
              ''Reinicie o deploy.'',
              ''Consulte a documenta'' @ [CHR 0xE7, CHR 0xE3] @ ''o.''],
      riskLevel = Low\<rparr>"

definition errorAdvice :: AIAnalysisResult where
  "errorAdvice =
     \<lparr>summary = ''N'' @ [CHR 0xE3] @ ''o foi poss'' @ [CHR 0xED] @
                 ''vel analisar os dados no momento.'',
      tips = [''Verifique sua conex'' @ [CHR 0xE3] @ ''o.'',
              ''Tente novamente mais tarde.'',
              ''Contate o suporte se o erro persistir.''],
      riskLevel = Low\<rparr>"

text \<open>The body of the \<open>try\<close> block: \<open>Inl\<close> is an exception thrown inside it.\<close>

definition adviceRequest ::
  "AdviceEnv \<Rightarrow> string \<Rightarrow> Transaction list \<Rightarrow> string \<Rightarrow> js_error + AIAnalysisResult" where
  "adviceRequest env apiKey txs moduleTitle =
     (case generateContent env apiKey txs moduleTitle of
        Inl e \<Rightarrow> Inl e
      | Inr text \<Rightarrow>
          (case text of
             None \<Rightarrow> Inl (Thrown ''No response from AI'')
           | Some t \<Rightarrow>
               if t = [] then Inl (Thrown ''No response from AI'') else JSON_parse env t))"

text \<open>
  The function itself; \<open>Inl\<close> is a rejected promise. The key is read before the \<open>try\<close>
  block, so an exception of \<open>getApiKey\<close> rejects the promise; the \<open>catch\<close> clause turns every
  exception of the block into the second literal.
\<close>

definition getFinancialAdvice ::
  "AdviceEnv \<Rightarrow> Transaction list \<Rightarrow> string \<Rightarrow> js_error + AIAnalysisResult" where
  "getFinancialAdvice env txs moduleTitle =
     (case getApiKey env of
        Inl e \<Rightarrow> Inl e
      | Inr apiKey \<Rightarrow>
          if apiKey = [] then Inr noKeyAdvice
          else (case adviceRequest env apiKey txs moduleTitle of
                  Inl error \<Rightarrow> Inr errorAdvice
                | Inr result \<Rightarrow> Inr result))"

section \<open>The specification's wording, and concrete records\<close>



text \<open>
  Two records lie in the same calendar month when the year and month read from their
  dates are equal numbers.
\<close>

definition sameCalendarMonth :: "Transaction \<Rightarrow> Transaction \<Rightarrow> bool" where
  "sameCalendarMonth a b =
     (case (yearMonth a, yearMonth b) of
        (Some (y1, m1), Some (y2, m2)) \<Rightarrow> strict_eq y1 y2 \<and> strict_eq m1 m2
      | _ \<Rightarrow> False)"

text \<open>
  The totals as the specification words them. Forward: the records of the queried record's
  module and calendar month that carry its title (\<open>forwardRecords_spec\<close> lists them, in
  snapshot order). Reverse: the records of the projection's calendar month, outside the
  projection module, that carry its title.
\<close>

definition forwardTotal_spec :: "Transaction list \<Rightarrow> Transaction \<Rightarrow> rat" where
  "forwardTotal_spec records M =
     sum_list (map amount (filter (\<lambda>t. moduleId t = moduleId M \<and> sameCalendarMonth t M \<and>
                                      normalize (title t) = normalize (title M)) records))"

definition forwardRecords_spec :: "Transaction list \<Rightarrow> Transaction \<Rightarrow> Transaction list" where
  "forwardRecords_spec records M =
     filter (\<lambda>t. moduleId t = moduleId M \<and> sameCalendarMonth t M \<and>
                 normalize (title t) = normalize (title M)) records"

text \<open>No addition of the sum of \<open>xs\<close>, taken from the left starting at \<open>s\<close>, is rounded.\<close>

fun sumsExact :: "rat \<Rightarrow> rat list \<Rightarrow> bool" where
  "sumsExact s [] = True"
| "sumsExact s (a # as) = (round64 (s + a) = Fin (s + a) \<and> sumsExact (s + a) as)"


definition mkTransaction ::
  "string \<Rightarrow> ModuleType \<Rightarrow> string \<Rightarrow> rat \<Rightarrow> string \<Rightarrow> TransactionType \<Rightarrow> Transaction" where
  "mkTransaction i m ttl a d k =
     \<lparr>id_t = i, moduleId = m, title = ttl, amount = a, date = d, type = k,
      category = None, note_t = None\<rparr>"

definition jan2024 :: JSDate where
  "jan2024 = \<lparr>getFullYear = 2024, getMonth = 0\<rparr>"

definition feb2024 :: JSDate where
  "feb2024 = \<lparr>getFullYear = 2024, getMonth = 1\<rparr>"

definition march2024 :: JSDate where
  "march2024 = \<lparr>getFullYear = 2024, getMonth = 2\<rparr>"

definition salary :: Transaction where
  "salary = mkTransaction ''b1'' BUDGET ''Salario'' 500 ''2024-03-05'' INCOME"

definition market :: Transaction where
  "market = mkTransaction ''b2'' BUDGET ''Mercado'' 200 ''2024-03-09'' EXPENSE"

definition shares :: Transaction where
  "shares = mkTransaction ''b3'' BUDGET ''Acoes'' 1000 ''2024-03-12'' ASSET"

definition viagemGoal :: Transaction where
  "viagemGoal = mkTransaction ''p1'' PROJECTION ''Viagem'' 2000 ''2024-03-01'' EXPENSE"

definition viagemA :: Transaction where
  "viagemA = mkTransaction ''v1'' TRAVEL ''Viagem'' 800 ''2024-03-10'' EXPENSE"

definition viagemB :: Transaction where
  "viagemB = mkTransaction ''v2'' TRAVEL ''viagem'' 500 ''2024-03-20'' EXPENSE"

definition viagemC :: Transaction where
  "viagemC = mkTransaction ''v3'' TRAVEL ''VIAGEM '' 700 ''2024-03-25'' EXPENSE"

definition viagemGoal2 :: Transaction where
  "viagemGoal2 = mkTransaction ''p3'' PROJECTION ''viagem'' 3000 ''2024-03-15'' EXPENSE"

definition groceriesGoal :: Transaction where
  "groceriesGoal = mkTransaction ''p2'' PROJECTION ''Groceries'' 400 ''2024-03-01'' EXPENSE"

definition groceriesA :: Transaction where
  "groceriesA = mkTransaction ''b4'' BUDGET ''Groceries'' 100 ''2024-03-04'' EXPENSE"

definition groceriesB :: Transaction where
  "groceriesB = mkTransaction ''b5'' BUDGET ''Groceries'' 50 ''2024-03-18'' EXPENSE"

definition aluguelGoalJan :: Transaction where
  "aluguelGoalJan = mkTransaction ''p4'' PROJECTION ''Aluguel'' 1000 ''2024-01-05'' EXPENSE"

definition aluguelFeb :: Transaction where
  "aluguelFeb = mkTransaction ''b6'' BUDGET ''Aluguel'' 400 ''2024-02-10'' EXPENSE"

definition academiaGoal :: Transaction where
  "academiaGoal = mkTransaction ''p5'' PROJECTION ''Academia'' 0 ''2024-03-01'' EXPENSE"

definition academiaFee :: Transaction where
  "academiaFee = mkTransaction ''b7'' BUDGET ''Academia'' 50 ''2024-03-07'' EXPENSE"

text \<open>The doubles nearest to 0.1, 0.2, 0.3 and 0.6, and records that carry them.\<close>

definition tenth :: rat where "tenth = 3602879701896397 / 36028797018963968"

definition fifth :: rat where "fifth = 3602879701896397 / 18014398509481984"

definition threeTenths :: rat where "threeTenths = 5404319552844595 / 18014398509481984"

definition sixTenths :: rat where "sixTenths = 5404319552844595 / 9007199254740992"

definition cafeGoal :: Transaction where
  "cafeGoal = mkTransaction ''p6'' PROJECTION ''Cafe'' sixTenths ''2024-03-01'' EXPENSE"

definition cafeA :: Transaction where
  "cafeA = mkTransaction ''b8'' BUDGET ''Cafe'' tenth ''2024-03-02'' EXPENSE"

definition cafeB :: Transaction where
  "cafeB = mkTransaction ''b9'' BUDGET ''Cafe'' fifth ''2024-03-03'' EXPENSE"

definition cafeC :: Transaction where
  "cafeC = mkTransaction ''b10'' BUDGET ''Cafe'' threeTenths ''2024-03-04'' EXPENSE"

definition envBrowser :: AdviceEnv where
  "envBrowser = \<lparr>process_env = None,
               generateContent = (\<lambda>k txs ttl. Inr (Some ''{}'')),
               JSON_parse = (\<lambda>t. Inl (Thrown ''Unexpected token''))\<rparr>"

definition envNoKey :: AdviceEnv where
  "envNoKey = \<lparr>process_env = Some (\<lambda>v. None),
               generateContent = (\<lambda>k txs ttl. Inr (Some ''{}'')),
               JSON_parse = (\<lambda>t. Inl (Thrown ''Unexpected token''))\<rparr>"

section \<open>Evaluation of the concrete records\<close>

lemmas date_eval = yearMonth_def inCurrentMonth_def strict_eq_def Number_def trim_def
  isWhiteSpace_def isDigit_def

lemmas record_defs = mkTransaction_def jan2024_def feb2024_def march2024_def salary_def
  market_def shares_def viagemGoal_def viagemA_def viagemB_def viagemC_def viagemGoal2_def
  groceriesGoal_def groceriesA_def groceriesB_def aluguelGoalJan_def aluguelFeb_def
  academiaGoal_def academiaFee_def

lemmas view_eval = getProjectionData_def getRealizationData_def rowData_def App_props_def
  filteredTransactions_def allCurrentMonthTransactions_def sameCalendarMonth_def

lemma normalize_viagem:
  "normalize ''Viagem'' = ''viagem''"
  "normalize ''viagem'' = ''viagem''"
  "normalize ''VIAGEM '' = ''viagem''"
  by code_simp+

lemma normalize_more:
  "normalize ''Groceries'' = ''groceries''"
  "normalize ''Aluguel'' = ''aluguel''"
  "normalize ''Academia'' = ''academia''"
  by code_simp+

lemma forward_viagem:
  "getProjectionData (App_props TRAVEL [viagemGoal, viagemA, viagemB]) march2024 ''Viagem'' =
     Some \<lparr>goalAmount = 2000, currentTotal = 1300, isOver = False\<rparr>"
  by (simp add: getProjectionData_def App_props_def filteredTransactions_def record_defs
      date_eval normalize_viagem)

lemma reverse_viagem_full:
  "getRealizationData (App_props PROJECTION [viagemGoal, viagemA, viagemB, viagemC]) march2024
     viagemGoal =
     Some \<lparr>goalAmount = 2000, currentTotal = 2000, isOver = False\<rparr>"
  by (simp add: getRealizationData_def App_props_def allCurrentMonthTransactions_def record_defs
      date_eval normalize_viagem)

lemma forward_groceries:
  "getProjectionData (App_props BUDGET [groceriesGoal, groceriesA, groceriesB]) march2024
     (title groceriesA) = Some \<lparr>goalAmount = 400, currentTotal = 150, isOver = False\<rparr>"
  "getProjectionData (App_props BUDGET [groceriesGoal, groceriesA, groceriesB]) march2024
     (title groceriesB) = Some \<lparr>goalAmount = 400, currentTotal = 150, isOver = False\<rparr>"
  by (simp_all add: view_eval record_defs date_eval normalize_more)

lemmas cafe_defs = cafeGoal_def cafeA_def cafeB_def cafeC_def mkTransaction_def march2024_def

lemma normalize_cafe: "normalize ''Cafe'' = ''cafe''"
  by code_simp

lemma decimals_as_doubles:
  "round64 (1 / 10) = Fin tenth" "round64 (2 / 10) = Fin fifth"
  "round64 (3 / 10) = Fin threeTenths" "round64 (6 / 10) = Fin sixTenths"
  by code_simp+

lemma cafe_sums:
  "js_add (js_add (js_add (Fin 0) (Fin tenth)) (Fin fifth)) (Fin threeTenths) =
     Fin (1351079888211149 / 2251799813685248)"
  "js_add (js_add (js_add (Fin 0) (Fin threeTenths)) (Fin fifth)) (Fin tenth) = Fin sixTenths"
  by code_simp+

lemma cafe_over:
  "js_gt (Fin (1351079888211149 / 2251799813685248)) (Fin sixTenths)"
  "\<not> js_gt (Fin sixTenths) (Fin sixTenths)"
  "(1351079888211149 / 2251799813685248 :: rat) \<noteq> sixTenths"
  by code_simp+

lemma cafe_forward_raw:
  "getProjectionData64 (App_props BUDGET [cafeGoal, cafeA, cafeB, cafeC]) march2024 (title cafeA) =
     Some \<lparr>goalAmount64 = sixTenths,
           currentTotal64 = js_add (js_add (js_add (Fin 0) (Fin tenth)) (Fin fifth)) (Fin threeTenths),
           isOver64 = js_gt (js_add (js_add (js_add (Fin 0) (Fin tenth)) (Fin fifth)) (Fin threeTenths))
                        (Fin sixTenths)\<rparr>"
  "getProjectionData64 (App_props BUDGET [cafeGoal, cafeC, cafeB, cafeA]) march2024 (title cafeA) =
     Some \<lparr>goalAmount64 = sixTenths,
           currentTotal64 = js_add (js_add (js_add (Fin 0) (Fin threeTenths)) (Fin fifth)) (Fin tenth),
           isOver64 = js_gt (js_add (js_add (js_add (Fin 0) (Fin threeTenths)) (Fin fifth)) (Fin tenth))
                        (Fin sixTenths)\<rparr>"
  by (simp_all add: getProjectionData64_def App_props_def filteredTransactions_def cafe_defs
      date_eval normalize_cafe Let_def del: js_add.simps js_gt.simps)

lemma whole_amounts:
  "round64 50 = Fin 50" "round64 100 = Fin 100" "round64 150 = Fin 150"
  by code_simp+

lemma forward_groceries64:
  "getProjectionData64 (App_props BUDGET [groceriesGoal, groceriesA, groceriesB]) march2024
     (title groceriesA) = Some \<lparr>goalAmount64 = 400, currentTotal64 = Fin 150, isOver64 = False\<rparr>"
  "getProjectionData64 (App_props BUDGET [groceriesGoal, groceriesA, groceriesB]) march2024
     (title groceriesB) = Some \<lparr>goalAmount64 = 400, currentTotal64 = Fin 150, isOver64 = False\<rparr>"
  "getProjectionData64 (App_props BUDGET [groceriesB, groceriesA, groceriesGoal]) march2024
     (title groceriesA) = Some \<lparr>goalAmount64 = 400, currentTotal64 = Fin 150, isOver64 = False\<rparr>"
  by (simp_all add: getProjectionData64_def App_props_def filteredTransactions_def record_defs
      date_eval normalize_more whole_amounts)

lemma groceries_records:
  "forwardRecords_spec [groceriesGoal, groceriesA, groceriesB] groceriesA = [groceriesA, groceriesB]"
  "forwardRecords_spec [groceriesB, groceriesA, groceriesGoal] groceriesA = [groceriesB, groceriesA]"
  by (simp_all add: forwardRecords_spec_def sameCalendarMonth_def record_defs date_eval
      normalize_more)

lemma groceries_exact:
  "sumsExact 0 (map amount [groceriesA, groceriesB])"
  "sumsExact 0 (map amount [groceriesB, groceriesA])"
  by (simp_all add: record_defs whole_amounts)

section \<open>Module totals\<close>




section \<open>Reconciliation: what the two totals sum\<close>


lemma sum_filter_mset:
  fixes f :: "'a \<Rightarrow> rat"
  assumes "mset xs = mset ys"
  shows "sum_list (map f (filter P xs)) = sum_list (map f (filter P ys))"
proof -
  have "mset (map f (filter P xs)) = mset (map f (filter P ys))"
    using assms by simp
  then have "sum_mset (mset (map f (filter P xs))) = sum_mset (mset (map f (filter P ys)))"
    by (rule arg_cong)
  then show ?thesis by (simp only: sum_mset_sum_list)
qed

lemma inCurrentMonth_same:
  assumes "inCurrentMonth cd M"
  shows "inCurrentMonth cd t = sameCalendarMonth t M"
  using assms
  by (auto simp: inCurrentMonth_def sameCalendarMonth_def strict_eq_def split: option.splits)

lemma find_defined_iff: "(find P xs \<noteq> None) = (\<exists>x \<in> set xs. P x)"
  by (auto simp: find_None_iff)

lemma row_in_view:
  assumes "M \<in> set (filteredTransactions (App_props m txs) cd)"
  shows "M \<in> set txs \<and> moduleId M = m \<and> inCurrentMonth cd M"
  using assms by (auto simp: filteredTransactions_def App_props_def)

lemma fold64_exact:
  assumes "sumsExact s xs"
  shows "foldl (\<lambda>sum a. js_add sum (Fin a)) (Fin s) xs = Fin (s + sum_list xs)"
  using assms
proof (induction xs arbitrary: s)
  case Nil
  then show ?case by simp
next
  case (Cons a as)
  then have step: "round64 (s + a) = Fin (s + a)" and rest: "sumsExact (s + a) as"
    by simp_all
  have "foldl (\<lambda>sum a. js_add sum (Fin a)) (Fin s) (a # as) =
      foldl (\<lambda>sum a. js_add sum (Fin a)) (Fin (s + a)) as"
    by (simp add: step)
  also have "\<dots> = Fin (s + a + sum_list as)"
    using rest by (rule Cons.IH)
  finally show ?case by (simp add: add.assoc)
qed

lemma fold64_amounts:
  "foldl (\<lambda>sum t. js_add sum (Fin (amount t))) (Fin 0) ts =
     foldl (\<lambda>sum a. js_add sum (Fin a)) (Fin 0) (map amount ts)"
  by (simp add: foldl_map)

lemma forward_total64:
  assumes "getProjectionData64 (App_props m txs) cd ttl = Some r"
  shows "currentTotal64 r =
     foldl (\<lambda>sum t. js_add sum (Fin (amount t))) (Fin 0)
       (filter (\<lambda>t. moduleId t = m \<and> inCurrentMonth cd t \<and>
                     normalize (title t) = normalize ttl) txs)"
  using assms
  by (auto simp: getProjectionData64_def App_props_def filteredTransactions_def Let_def
        conj_commute conj_left_commute split: if_splits option.splits)

lemma forward_defined64_iff:
  "(getProjectionData64 (App_props m txs) cd ttl \<noteq> None) =
     (m \<noteq> PROJECTION \<and> (\<exists>p \<in> set txs. moduleId p = PROJECTION \<and> normalize (title p) = normalize ttl))"
proof -
  have "(getProjectionData64 (App_props m txs) cd ttl \<noteq> None) =
     (m \<noteq> PROJECTION \<and>
      find (\<lambda>p. moduleId p = PROJECTION \<and> normalize (title p) = normalize ttl) txs \<noteq> None)"
    by (simp add: getProjectionData64_def App_props_def Let_def split: option.splits)
  then show ?thesis by (simp only: find_defined_iff)
qed

lemma forwardTotal_records:
  "forwardTotal_spec txs M = sum_list (map amount (forwardRecords_spec txs M))"
  by (simp add: forwardTotal_spec_def forwardRecords_spec_def)

text \<open>
  C5, as the claim states it, fails: the total is accumulated in list order with rounded
  additions, and the order matters. With a goal of 0.6 and three records of 0.1, 0.2 and
  0.3 under it, the snapshot order 0.1, 0.2, 0.3 gives 0.6000000000000001 (over the goal),
  and the order 0.3, 0.2, 0.1 gives 0.6 (not over).
\<close>

theorem forward_currentTotal_order_counterexample:
  "mset [cafeGoal, cafeC, cafeB, cafeA] = mset [cafeGoal, cafeA, cafeB, cafeC] \<and>
   getProjectionData64 (App_props BUDGET [cafeGoal, cafeA, cafeB, cafeC]) march2024 (title cafeA) =
     Some \<lparr>goalAmount64 = sixTenths,
           currentTotal64 = Fin (1351079888211149 / 2251799813685248),
           isOver64 = True\<rparr> \<and>
   getProjectionData64 (App_props BUDGET [cafeGoal, cafeC, cafeB, cafeA]) march2024 (title cafeA) =
     Some \<lparr>goalAmount64 = sixTenths, currentTotal64 = Fin sixTenths, isOver64 = False\<rparr> \<and>
   (1351079888211149 / 2251799813685248 :: rat) \<noteq> sixTenths \<and>
   round64 (1 / 10) = Fin (amount cafeA) \<and> round64 (2 / 10) = Fin (amount cafeB) \<and>
   round64 (3 / 10) = Fin (amount cafeC) \<and> round64 (6 / 10) = Fin (amount cafeGoal)"
proof -
  have p: "mset [cafeGoal, cafeC, cafeB, cafeA] = mset [cafeGoal, cafeA, cafeB, cafeC]"
    by (simp add: add.commute add.left_commute)
  have a: "amount cafeA = tenth" "amount cafeB = fifth" "amount cafeC = threeTenths"
    "amount cafeGoal = sixTenths"
    by (simp_all add: cafe_defs)
  from p show ?thesis
    by (simp only: cafe_forward_raw cafe_sums cafe_over decimals_as_doubles a simp_thms)
qed

text \<open>
  C5, amended: when \<open>getProjectionData\<close> answers for a row \<open>M\<close> of the module's month list,
  its \<open>currentTotal\<close> is the sum, accumulated from 0 in snapshot order with double-precision
  additions, of the amounts of all records of the snapshot in \<open>M\<close>'s module and calendar month
  whose normalized title is \<open>M\<close>'s, not only of the queried record. When none of these
  additions is rounded, it is their exact sum; and a reordered snapshot whose additions
  are not rounded either gives the same \<open>currentTotal\<close>. Two Groceries records of 100 and
  50 in one month give 150, from either row and in either order.
\<close>

theorem forward_currentTotal_sums_all:
  assumes "M \<in> set (filteredTransactions (App_props m txs) currentDate)"
      and "getProjectionData64 (App_props m txs) currentDate (title M) = Some r"
  shows "currentTotal64 r =
           foldl (\<lambda>sum t. js_add sum (Fin (amount t))) (Fin 0) (forwardRecords_spec txs M) \<and>
         (sumsExact 0 (map amount (forwardRecords_spec txs M)) \<longrightarrow>
            currentTotal64 r = Fin (forwardTotal_spec txs M)) \<and>
         (mset txs' = mset txs \<and>
          sumsExact 0 (map amount (forwardRecords_spec txs M)) \<and>
          sumsExact 0 (map amount (forwardRecords_spec txs' M)) \<longrightarrow>
            map_option currentTotal64
              (getProjectionData64 (App_props m txs') currentDate (title M)) =
              Some (currentTotal64 r))"
proof -
  from assms(1) have M: "moduleId M = m" "inCurrentMonth currentDate M"
    using row_in_view by blast+
  have same: "\<And>t. inCurrentMonth currentDate t = sameCalendarMonth t M"
    using M(2) by (rule inCurrentMonth_same)
  have recs: "\<And>ys. filter (\<lambda>t. moduleId t = m \<and> inCurrentMonth currentDate t \<and>
                     normalize (title t) = normalize (title M)) ys = forwardRecords_spec ys M"
    by (simp add: forwardRecords_spec_def M(1) same)
  have fold: "currentTotal64 r =
      foldl (\<lambda>sum t. js_add sum (Fin (amount t))) (Fin 0) (forwardRecords_spec txs M)"
    using forward_total64 [OF assms(2)] by (simp only: recs)
  have exact: "\<And>ys. sumsExact 0 (map amount (forwardRecords_spec ys M)) \<Longrightarrow>
      foldl (\<lambda>sum t. js_add sum (Fin (amount t))) (Fin 0) (forwardRecords_spec ys M) =
        Fin (forwardTotal_spec ys M)"
    using fold64_exact [of 0] by (simp add: fold64_amounts forwardTotal_records)
  have one: "sumsExact 0 (map amount (forwardRecords_spec txs M)) \<longrightarrow>
      currentTotal64 r = Fin (forwardTotal_spec txs M)"
    using fold exact by simp
  have two: "mset txs' = mset txs \<and>
      sumsExact 0 (map amount (forwardRecords_spec txs M)) \<and>
      sumsExact 0 (map amount (forwardRecords_spec txs' M)) \<longrightarrow>
        map_option currentTotal64
          (getProjectionData64 (App_props m txs') currentDate (title M)) =
          Some (currentTotal64 r)"
  proof
    assume h: "mset txs' = mset txs \<and>
      sumsExact 0 (map amount (forwardRecords_spec txs M)) \<and>
      sumsExact 0 (map amount (forwardRecords_spec txs' M))"
    then have perm: "mset txs' = mset txs" by simp
    have "getProjectionData64 (App_props m txs) currentDate (title M) \<noteq> None"
      using assms(2) by simp
    then have "m \<noteq> PROJECTION \<and>
        (\<exists>p \<in> set txs. moduleId p = PROJECTION \<and> normalize (title p) = normalize (title M))"
      using forward_defined64_iff [of m txs currentDate "title M"] by blast
    then have "m \<noteq> PROJECTION \<and>
        (\<exists>p \<in> set txs'. moduleId p = PROJECTION \<and> normalize (title p) = normalize (title M))"
      using mset_eq_setD [OF perm] by simp
    then have "getProjectionData64 (App_props m txs') currentDate (title M) \<noteq> None"
      using forward_defined64_iff [of m txs' currentDate "title M"] by blast
    then obtain r' where r':
      "getProjectionData64 (App_props m txs') currentDate (title M) = Some r'"
      by blast
    have "currentTotal64 r' =
        foldl (\<lambda>sum t. js_add sum (Fin (amount t))) (Fin 0) (forwardRecords_spec txs' M)"
      using forward_total64 [OF r'] by (simp only: recs)
    with h exact have t': "currentTotal64 r' = Fin (forwardTotal_spec txs' M)" by simp
    from h one have t: "currentTotal64 r = Fin (forwardTotal_spec txs M)" by simp
    have "forwardTotal_spec txs' M = forwardTotal_spec txs M"
      unfolding forwardTotal_spec_def using perm by (rule sum_filter_mset)
    with t t' r' show "map_option currentTotal64
        (getProjectionData64 (App_props m txs') currentDate (title M)) =
        Some (currentTotal64 r)"
      by simp
  qed
  from fold one two show ?thesis by blast
qed

theorem forward_currentTotal_sums_all_witness:
  "groceriesA \<in> set (filteredTransactions (App_props BUDGET [groceriesGoal, groceriesA, groceriesB])
      march2024) \<and>
   getProjectionData64 (App_props BUDGET [groceriesGoal, groceriesA, groceriesB]) march2024
     (title groceriesA) = Some \<lparr>goalAmount64 = 400, currentTotal64 = Fin 150, isOver64 = False\<rparr> \<and>
   mset [groceriesB, groceriesA, groceriesGoal] = mset [groceriesGoal, groceriesA, groceriesB] \<and>
   sumsExact 0 (map amount (forwardRecords_spec [groceriesGoal, groceriesA, groceriesB] groceriesA)) \<and>
   sumsExact 0 (map amount (forwardRecords_spec [groceriesB, groceriesA, groceriesGoal] groceriesA)) \<and>
   forwardRecords_spec [groceriesGoal, groceriesA, groceriesB] groceriesA = [groceriesA, groceriesB] \<and>
   forwardTotal_spec [groceriesGoal, groceriesA, groceriesB] groceriesA = 150 \<and>
   map_option currentTotal64
     (getProjectionData64 (App_props BUDGET [groceriesB, groceriesA, groceriesGoal]) march2024
        (title groceriesA)) = Some (Fin 150) \<and>
   map_option currentTotal64
     (getProjectionData64 (App_props BUDGET [groceriesGoal, groceriesA, groceriesB]) march2024
        (title groceriesB)) = Some (Fin 150)"
proof -
  have h1: "groceriesA \<in> set (filteredTransactions
      (App_props BUDGET [groceriesGoal, groceriesA, groceriesB]) march2024)"
    by (simp add: view_eval record_defs date_eval)
  have h2: "getProjectionData64 (App_props BUDGET [groceriesGoal, groceriesA, groceriesB])
      march2024 (title groceriesA) =
      Some \<lparr>goalAmount64 = 400, currentTotal64 = Fin 150, isOver64 = False\<rparr>"
    by (rule forward_groceries64)
  have h3: "mset [groceriesB, groceriesA, groceriesGoal] = mset [groceriesGoal, groceriesA, groceriesB]"
    by (simp add: add.commute)
  have e1: "sumsExact 0 (map amount
      (forwardRecords_spec [groceriesGoal, groceriesA, groceriesB] groceriesA))"
    by (simp only: groceries_records groceries_exact)
  have e2: "sumsExact 0 (map amount
      (forwardRecords_spec [groceriesB, groceriesA, groceriesGoal] groceriesA))"
    by (simp only: groceries_records groceries_exact)
  have t: "forwardTotal_spec [groceriesGoal, groceriesA, groceriesB] groceriesA = 150"
    by (simp only: forwardTotal_records groceries_records) (simp add: record_defs)
  from forward_currentTotal_sums_all
    [OF h1 h2, of "[groceriesB, groceriesA, groceriesGoal]"] h1 h2 h3 e1 e2 t
  show ?thesis by (simp add: forward_groceries64 groceries_records)
qed




section \<open>Reconciliation: which projection gives the goal\<close>

text \<open>
  C4, as the claim states it, fails: with two projection records of the same title in the
  same month (2000 and 3000), the forward match of a travel record reports the first one's
  2000, while the reverse match of the second one reports 3000.
\<close>

theorem goalAmount_duplicate_counterexample:
  "viagemGoal2 \<in> set [viagemGoal, viagemGoal2, viagemA] \<and>
   viagemA \<in> set [viagemGoal, viagemGoal2, viagemA] \<and>
   moduleId viagemGoal2 = PROJECTION \<and>
   moduleId viagemA = TRAVEL \<and>
   normalize (title viagemGoal2) = normalize (title viagemA) \<and>
   sameCalendarMonth viagemGoal2 viagemA \<and>
   getProjectionData (App_props TRAVEL [viagemGoal, viagemGoal2, viagemA]) march2024
     (title viagemA) = Some \<lparr>goalAmount = 2000, currentTotal = 800, isOver = False\<rparr> \<and>
   getRealizationData (App_props PROJECTION [viagemGoal, viagemGoal2, viagemA]) march2024
     viagemGoal2 = Some \<lparr>goalAmount = 3000, currentTotal = 800, isOver = False\<rparr>"
  by (simp add: view_eval record_defs date_eval normalize_viagem)

lemma find_unique:
  assumes "P \<in> set xs" and "Q P" and "\<forall>p \<in> set xs. Q p \<longrightarrow> p = P"
  shows "find Q xs = Some P"
  using assms(1,3)
proof (induction xs)
  case Nil
  then show ?case by simp
next
  case (Cons x xs)
  show ?case
  proof (cases "Q x")
    case True
    with Cons.prems(2) have "x = P" by simp
    with True show ?thesis by simp
  next
    case False
    with assms(2) have "x \<noteq> P" by blast
    with Cons.prems(1) have "P \<in> set xs" by simp
    moreover from Cons.prems(2) have "\<forall>p \<in> set xs. Q p \<longrightarrow> p = P" by simp
    ultimately have "find Q xs = Some P" by (rule Cons.IH)
    with False show ?thesis by simp
  qed
qed

text \<open>
  C4, amended: for a projection record \<open>P\<close> and a module record \<open>M\<close> of the snapshot with equal
  normalized titles and equal (year, month), where \<open>P\<close> is the only projection record of the
  snapshot with that normalized title, \<open>getProjectionData\<close> for \<open>M\<close> and \<open>getRealizationData\<close>
  for \<open>P\<close> report the same \<open>goalAmount\<close>, the amount of \<open>P\<close>.
\<close>

theorem goalAmount_agrees_when_unique:
  assumes "P \<in> set txs" and "M \<in> set txs"
      and "moduleId P = PROJECTION" and "moduleId M \<noteq> PROJECTION"
      and "normalize (title P) = normalize (title M)"
      and "sameCalendarMonth P M"
      and "\<forall>p \<in> set txs. moduleId p = PROJECTION \<and> normalize (title p) = normalize (title P)
             \<longrightarrow> p = P"
  shows "map_option goalAmount
           (getProjectionData (App_props (moduleId M) txs) currentDate (title M)) =
           Some (amount P) \<and>
         map_option goalAmount
           (getRealizationData (App_props PROJECTION txs) currentDate P) = Some (amount P)"
proof -
  have Q: "moduleId P = PROJECTION \<and> normalize (title P) = normalize (title M)"
    using assms(3,5) by simp
  have U: "\<forall>p \<in> set txs.
      (moduleId p = PROJECTION \<and> normalize (title p) = normalize (title M)) \<longrightarrow> p = P"
    using assms(5,7) by simp
  have "find (\<lambda>p. moduleId p = PROJECTION \<and> normalize (title p) = normalize (title M)) txs =
      Some P"
    using assms(1) Q U by (rule find_unique)
  then have "map_option goalAmount
      (getProjectionData (App_props (moduleId M) txs) currentDate (title M)) = Some (amount P)"
    using assms(4) by (simp add: getProjectionData_def App_props_def Let_def)
  moreover have "map_option goalAmount
      (getRealizationData (App_props PROJECTION txs) currentDate P) = Some (amount P)"
    by (simp add: getRealizationData_def App_props_def Let_def)
  ultimately show ?thesis by blast
qed

theorem goalAmount_agrees_when_unique_witness:
  "viagemGoal \<in> set [viagemGoal, viagemA, viagemB] \<and>
   viagemB \<in> set [viagemGoal, viagemA, viagemB] \<and>
   moduleId viagemGoal = PROJECTION \<and>
   moduleId viagemB \<noteq> PROJECTION \<and>
   normalize (title viagemGoal) = normalize (title viagemB) \<and>
   sameCalendarMonth viagemGoal viagemB \<and>
   map_option goalAmount
     (getProjectionData (App_props TRAVEL [viagemGoal, viagemA, viagemB]) march2024
        (title viagemB)) = Some 2000 \<and>
   map_option goalAmount
     (getRealizationData (App_props PROJECTION [viagemGoal, viagemA, viagemB]) march2024
        viagemGoal) = Some 2000"
proof -
  have h1: "viagemGoal \<in> set [viagemGoal, viagemA, viagemB]" by simp
  have h2: "viagemB \<in> set [viagemGoal, viagemA, viagemB]" by simp
  have h3: "moduleId viagemGoal = PROJECTION" by (simp add: record_defs)
  have h4: "moduleId viagemB \<noteq> PROJECTION" by (simp add: record_defs)
  have h5: "normalize (title viagemGoal) = normalize (title viagemB)"
    by (simp add: record_defs normalize_viagem)
  have h6: "sameCalendarMonth viagemGoal viagemB"
    by (simp add: sameCalendarMonth_def record_defs date_eval)
  have h7: "\<forall>p \<in> set [viagemGoal, viagemA, viagemB].
      moduleId p = PROJECTION \<and> normalize (title p) = normalize (title viagemGoal)
        \<longrightarrow> p = viagemGoal"
    by (simp add: record_defs)
  have m: "moduleId viagemB = TRAVEL" "amount viagemGoal = 2000"
    by (simp_all add: record_defs)
  from goalAmount_agrees_when_unique [OF h1 h2 h3 h4 h5 h6 h7, of march2024] h1 h2 h3 h4 h5 h6
  show ?thesis by (simp add: m)
qed

text \<open>
  C1, at a failing input: the only projection record titled Aluguel is dated January; a
  budget record titled Aluguel is dated February. In the February view of the budget
  module the row of the budget record reports the January projection's 1000 as its goal,
  although the two records are not in the same calendar month and the projection is not
  among the month's records. The reverse match does restrict itself to the month: in the
  January view of the projection module the same projection shows nothing realized.
\<close>

theorem forward_goal_from_other_month:
  "aluguelFeb \<in> set (filteredTransactions (App_props BUDGET [aluguelFeb, aluguelGoalJan]) feb2024) \<and>
   rowData (App_props BUDGET [aluguelFeb, aluguelGoalJan]) feb2024 aluguelFeb =
     Some \<lparr>goalAmount = amount aluguelGoalJan, currentTotal = 400, isOver = False\<rparr> \<and>
   amount aluguelGoalJan = 1000 \<and>
   \<not> sameCalendarMonth aluguelGoalJan aluguelFeb \<and>
   \<not> inCurrentMonth feb2024 aluguelGoalJan \<and>
   rowData (App_props PROJECTION [aluguelFeb, aluguelGoalJan]) jan2024 aluguelGoalJan =
     Some \<lparr>goalAmount = 1000, currentTotal = 0, isOver = False\<rparr>"
  by (simp add: view_eval record_defs date_eval normalize_more)

section \<open>The over-goal flag and the clamped percentage\<close>

text \<open>
  C7: in every result of \<open>getProjectionData\<close> and of \<open>getRealizationData\<close>, \<open>isOver\<close>
  holds exactly when \<open>currentTotal\<close> is strictly greater than \<open>goalAmount\<close>; when the two
  are equal, \<open>isOver\<close> is false.
\<close>

theorem isOver_iff_strictly_greater:
  assumes "getProjectionData props currentDate transactionTitle = Some r \<or>
           getRealizationData props currentDate projection = Some r"
  shows "isOver r = (currentTotal r > goalAmount r) \<and>
         (currentTotal r = goalAmount r \<longrightarrow> \<not> isOver r)"
  using assms
  by (auto simp: getProjectionData_def getRealizationData_def Let_def
      split: if_splits option.splits)

theorem isOver_iff_strictly_greater_witness:
  "(getProjectionData (App_props PROJECTION [viagemGoal, viagemA, viagemB, viagemC]) march2024
      ''Viagem'' = Some \<lparr>goalAmount = 2000, currentTotal = 2000, isOver = False\<rparr> \<or>
    getRealizationData (App_props PROJECTION [viagemGoal, viagemA, viagemB, viagemC]) march2024
      viagemGoal = Some \<lparr>goalAmount = 2000, currentTotal = 2000, isOver = False\<rparr>) \<and>
   isOver \<lparr>goalAmount = 2000, currentTotal = 2000, isOver = False\<rparr> =
     (currentTotal \<lparr>goalAmount = 2000, currentTotal = 2000, isOver = False\<rparr>
        > goalAmount \<lparr>goalAmount = 2000, currentTotal = 2000, isOver = False\<rparr>) \<and>
   currentTotal \<lparr>goalAmount = 2000, currentTotal = 2000, isOver = False\<rparr> =
     goalAmount \<lparr>goalAmount = 2000, currentTotal = 2000, isOver = False\<rparr> \<and>
   \<not> isOver \<lparr>goalAmount = 2000, currentTotal = 2000, isOver = False\<rparr>"
proof -
  have h: "getProjectionData (App_props PROJECTION [viagemGoal, viagemA, viagemB, viagemC])
      march2024 ''Viagem'' = Some \<lparr>goalAmount = 2000, currentTotal = 2000, isOver = False\<rparr> \<or>
    getRealizationData (App_props PROJECTION [viagemGoal, viagemA, viagemB, viagemC]) march2024
      viagemGoal = Some \<lparr>goalAmount = 2000, currentTotal = 2000, isOver = False\<rparr>"
    by (simp add: reverse_viagem_full)
  from h isOver_iff_strictly_greater [OF h] show ?thesis by simp
qed

text \<open>
  C8: for a non-negative \<open>currentTotal\<close> and a strictly positive \<open>goalAmount\<close>, the
  percentage of the bar is the finite number \<open>min (currentTotal / goalAmount * 100) 100\<close>,
  and it lies between 0 and 100.
\<close>

theorem percentage_in_range:
  assumes "0 \<le> currentTotal d" and "0 < goalAmount d"
  shows "percentage (Some d) = Fin (min (currentTotal d / goalAmount d * 100) 100) \<and>
         0 \<le> min (currentTotal d / goalAmount d * 100) 100 \<and>
         min (currentTotal d / goalAmount d * 100) 100 \<le> 100"
  using assms by (simp add: percentage_def)

theorem percentage_in_range_witness:
  "0 \<le> currentTotal \<lparr>goalAmount = 2000, currentTotal = 1300, isOver = False\<rparr> \<and>
   0 < goalAmount \<lparr>goalAmount = 2000, currentTotal = 1300, isOver = False\<rparr> \<and>
   percentage (Some \<lparr>goalAmount = 2000, currentTotal = 1300, isOver = False\<rparr>) = Fin 65"
proof -
  have h1: "0 \<le> currentTotal \<lparr>goalAmount = 2000, currentTotal = 1300, isOver = False\<rparr>"
    by simp
  have h2: "0 < goalAmount \<lparr>goalAmount = 2000, currentTotal = 1300, isOver = False\<rparr>"
    by simp
  from percentage_in_range [OF h1 h2] h1 h2 show ?thesis by simp
qed

text \<open>
  C3, at a failing input: a projection of amount 0. In the projection module its row divides
  0 by 0: the bar's percentage and the figure before the percent sign are NaN. In the budget
  module a record of 50 under that goal divides 50 by 0: the bar is full and the figure is
  infinite. The line below the bar is computed as for any other goal.
\<close>

theorem zero_goal_not_special_cased:
  "rowData (App_props PROJECTION [academiaGoal]) march2024 academiaGoal =
     Some \<lparr>goalAmount = 0, currentTotal = 0, isOver = False\<rparr> \<and>
   percentage (Some \<lparr>goalAmount = 0, currentTotal = 0, isOver = False\<rparr>) = NaN \<and>
   percentageLabel \<lparr>goalAmount = 0, currentTotal = 0, isOver = False\<rparr> = NaN \<and>
   remainingLine \<lparr>goalAmount = 0, currentTotal = 0, isOver = False\<rparr> = Restam 0 \<and>
   rowData (App_props BUDGET [academiaGoal, academiaFee]) march2024 academiaFee =
     Some \<lparr>goalAmount = 0, currentTotal = 50, isOver = True\<rparr> \<and>
   percentage (Some \<lparr>goalAmount = 0, currentTotal = 50, isOver = True\<rparr>) = Fin 100 \<and>
   percentageLabel \<lparr>goalAmount = 0, currentTotal = 50, isOver = True\<rparr> = PosInf \<and>
   remainingLine \<lparr>goalAmount = 0, currentTotal = 50, isOver = True\<rparr> = Excedeu 50"
  by (simp add: view_eval record_defs date_eval normalize_more
      percentage_def percentageLabel_def remainingLine_def)

section \<open>Title matching\<close>





section \<open>Advice fallback\<close>

lemma getFinancialAdvice_with_process:
  assumes "process_env env = Some vars"
  shows "\<exists>r. getFinancialAdvice env txs moduleTitle = Inr r"
    and "vars ''API_KEY'' = None \<or> vars ''API_KEY'' = Some [] \<Longrightarrow>
         getFinancialAdvice env txs moduleTitle = Inr noKeyAdvice"
    and "length (tips noKeyAdvice) = 3 \<and> riskLevel noKeyAdvice = Low \<and>
         length (tips errorAdvice) = 3 \<and> riskLevel errorAdvice = Low"
proof -
  show "\<exists>r. getFinancialAdvice env txs moduleTitle = Inr r"
    using assms by (simp add: getFinancialAdvice_def getApiKey_def split: sum.splits)
  show "getFinancialAdvice env txs moduleTitle = Inr noKeyAdvice"
    if "vars ''API_KEY'' = None \<or> vars ''API_KEY'' = Some []"
    using assms that by (auto simp: getFinancialAdvice_def getApiKey_def)
  show "length (tips noKeyAdvice) = 3 \<and> riskLevel noKeyAdvice = Low \<and>
      length (tips errorAdvice) = 3 \<and> riskLevel errorAdvice = Low"
    by (simp add: noKeyAdvice_def errorAdvice_def)
qed

text \<open>
  C10, at a failing input: a page where no global \<open>process\<close> exists, so that no API key
  is configured. Whatever the records and the module title, \<open>getFinancialAdvice\<close> rejects
  with the \<open>ReferenceError\<close> of \<open>getApiKey\<close>, which is called before the \<open>try\<close> block, and
  returns no fallback. Where \<open>process\<close> exists and the key is unset, the guard answers
  with the first literal.
\<close>

theorem getFinancialAdvice_rejects_without_process:
  "process_env envBrowser = None \<and>
   getFinancialAdvice envBrowser txs moduleTitle =
     Inl (ReferenceError ''process is not defined'') \<and>
   getFinancialAdvice envNoKey txs moduleTitle = Inr noKeyAdvice"
  by (simp add: getFinancialAdvice_def getApiKey_def envBrowser_def envNoKey_def)

end
